theory Spec2Isabelle
  imports Main "HOL-Library.Sublist"
begin

section \<open>Text primitives\<close>

text \<open>
  A Python \<open>str\<close> is modelled as a \<open>string\<close>, a list of 8-bit characters. Case
  folding, whitespace and the regular-expression classes are those of the ASCII range, where
  Python's Unicode tables and these definitions agree; a character outside ASCII is carried
  through unchanged (the em dash of a title is its three UTF-8 bytes).
\<close>

definition upper_letters :: string where
  "upper_letters = ''ABCDEFGHIJKLMNOPQRSTUVWXYZ''"

definition lower_letters :: string where
  "lower_letters = ''abcdefghijklmnopqrstuvwxyz''"

definition lower_char :: "char \<Rightarrow> char" where
  "lower_char c = (case map_of (zip upper_letters lower_letters) c of Some l \<Rightarrow> l | None \<Rightarrow> c)"

definition lower :: "string \<Rightarrow> string" where
  "lower s = map lower_char s"

definition is_digit :: "char \<Rightarrow> bool" where
  "is_digit c = (c \<in> set ''0123456789'')"

definition is_alpha :: "char \<Rightarrow> bool" where
  "is_alpha c = (c \<in> set (upper_letters @ lower_letters))"

text \<open>\<open>str.isspace\<close> on ASCII: tab, line feed, VT, FF, CR, the separators 28..31, space.\<close>

definition is_space :: "char \<Rightarrow> bool" where
  "is_space c =
     (c \<in> set [CHR 0x09, CHR 0x0A, CHR 0x0B, CHR 0x0C, CHR 0x0D,
                CHR 0x1C, CHR 0x1D, CHR 0x1E, CHR 0x1F, CHR 0x20])"

definition is_word :: "char \<Rightarrow> bool" where
  "is_word c = (is_alpha c \<or> is_digit c \<or> c = CHR ''_'')"

definition newline :: char where
  "newline = CHR 0x0A"

text \<open>\<open>s.strip()\<close>: whitespace removed at both ends.\<close>

definition strip :: "string \<Rightarrow> string" where
  "strip s = rev (dropWhile is_space (rev (dropWhile is_space s)))"

text \<open>\<open>k in text\<close> on strings is contiguous containment.\<close>

definition py_in :: "string \<Rightarrow> string \<Rightarrow> bool" where
  "py_in k text = sublist k text"

text \<open>\<open>s.split()\<close>: the maximal runs of non-whitespace characters.\<close>

fun split_ws :: "string \<Rightarrow> string \<Rightarrow> string list" where
  "split_ws acc [] = (if acc = [] then [] else [rev acc])"
| "split_ws acc (c # cs) =
     (if is_space c then (if acc = [] then split_ws [] cs else rev acc # split_ws [] cs)
      else split_ws (c # acc) cs)"

definition split :: "string \<Rightarrow> string list" where
  "split s = split_ws [] s"

text \<open>\<open>" ".join(xs)\<close>.\<close>

fun join_sp :: "string list \<Rightarrow> string" where
  "join_sp [] = []"
| "join_sp [x] = x"
| "join_sp (x # y # ys) = x @ '' '' @ join_sp (y # ys)"

section \<open>Regular expressions\<close>

text \<open>
  The patterns of the source use character classes under bounded or unbounded greedy
  repetition, literal text, alternation, optional groups, the anchors \<open>^\<close> and \<open>$\<close> in
  multi-line mode, the word boundary \<open>\b\<close>, and one capture group. A cursor is the
  character before the position (if any) and the text from the position on. \<open>ends r c\<close>
  lists the cursors at which a match of \<open>r\<close> started at \<open>c\<close> can end, in the order in which
  the backtracking matcher of \<open>re\<close> tries them, so the head of the list is the match that
  \<open>re\<close> reports.
\<close>

datatype cls = Digit | Space | Alpha | SymTok | NotNL | Lit char | LitCI char

fun in_cls :: "cls \<Rightarrow> char \<Rightarrow> bool" where
  "in_cls Digit c = is_digit c"
| "in_cls Space c = is_space c"
| "in_cls Alpha c = is_alpha c"
| "in_cls SymTok c = (is_alpha c \<or> is_digit c \<or> c = CHR ''/'')"
| "in_cls NotNL c = (c \<noteq> newline)"
| "in_cls (Lit x) c = (c = x)"
| "in_cls (LitCI x) c = (lower_char c = lower_char x)"

type_synonym cursor = "char option \<times> string"

fun run_len :: "cls \<Rightarrow> nat \<Rightarrow> string \<Rightarrow> nat" where
  "run_len k 0 s = 0"
| "run_len k (Suc n) [] = 0"
| "run_len k (Suc n) (c # cs) = (if in_cls k c then Suc (run_len k n cs) else 0)"

fun advance :: "nat \<Rightarrow> cursor \<Rightarrow> cursor" where
  "advance 0 c = c"
| "advance (Suc n) (p, []) = (p, [])"
| "advance (Suc n) (p, x # xs) = advance n (Some x, xs)"

datatype rx = Rep cls nat "nat option" | Seq rx rx | Alt rx rx | Eps | Bol | Eol | Wb

definition word_before :: "cursor \<Rightarrow> bool" where
  "word_before c = (case fst c of None \<Rightarrow> False | Some x \<Rightarrow> is_word x)"

definition word_after :: "cursor \<Rightarrow> bool" where
  "word_after c = (case snd c of [] \<Rightarrow> False | x # _ \<Rightarrow> is_word x)"

fun ends :: "rx \<Rightarrow> cursor \<Rightarrow> cursor list" where
  "ends (Rep k lo hi) c =
     (let n = run_len k (case hi of None \<Rightarrow> length (snd c) | Some h \<Rightarrow> h) (snd c)
      in map (\<lambda>i. advance i c) (rev [lo ..< Suc n]))"
| "ends (Seq a b) c = concat (map (ends b) (ends a c))"
| "ends (Alt a b) c = ends a c @ ends b c"
| "ends Eps c = [c]"
| "ends Bol c = (if fst c = None \<or> fst c = Some newline then [c] else [])"
| "ends Eol c = (case snd c of [] \<Rightarrow> [c] | x # _ \<Rightarrow> if x = newline then [c] else [])"
| "ends Wb c = (if word_before c \<noteq> word_after c then [c] else [])"

definition lit :: "string \<Rightarrow> rx" where
  "lit s = foldr (\<lambda>x r. Seq (Rep (Lit x) 1 (Some 1)) r) s Eps"

definition lit_ci :: "string \<Rightarrow> rx" where
  "lit_ci s = foldr (\<lambda>x r. Seq (Rep (LitCI x) 1 (Some 1)) r) s Eps"

definition opt :: "rx \<Rightarrow> rx" where
  "opt r = Alt r Eps"

text \<open>A pattern with its capture group: what precedes the group, the group, what follows.\<close>

type_synonym pat = "rx \<times> rx \<times> rx"

definition match_here :: "pat \<Rightarrow> cursor \<Rightarrow> string option" where
  "match_here p c =
     (case p of (pre, grp, post) \<Rightarrow>
        (case concat (map (\<lambda>j. concat (map (\<lambda>k. map (\<lambda>e. take (length (snd j) - length (snd k)) (snd j))
                                                   (ends post k))
                                         (ends grp j)))
                          (ends pre c)) of
           [] \<Rightarrow> None
         | g # _ \<Rightarrow> Some g))"

fun search_from :: "pat \<Rightarrow> char option \<Rightarrow> string \<Rightarrow> string option" where
  "search_from p prev [] = match_here p (prev, [])"
| "search_from p prev (x # xs) =
     (case match_here p (prev, x # xs) of
        Some g \<Rightarrow> Some g
      | None \<Rightarrow> search_from p (Some x) xs)"

text \<open>\<open>pattern.search(text)\<close>, giving \<open>group(1)\<close> of the leftmost match.\<close>

definition re_search :: "pat \<Rightarrow> string \<Rightarrow> string option" where
  "re_search p text = search_from p None text"

text \<open>\<open>re.search(r, text)\<close> and \<open>re.match(r, text)\<close> used as truth values.\<close>

definition re_found :: "rx \<Rightarrow> string \<Rightarrow> bool" where
  "re_found r text = (re_search (r, Eps, Eps) text \<noteq> None)"

definition re_match :: "rx \<Rightarrow> string \<Rightarrow> bool" where
  "re_match r text = (ends r (None, text) \<noteq> [])"

section \<open>Event classifier\<close>

text \<open>\<open>EVENT_KEYWORDS\<close> (lines 33-40), in declaration order, which a dict keeps.\<close>

definition EVENT_KEYWORDS :: "(string \<times> string list) list" where
  "EVENT_KEYWORDS =
     [(''reverse split'', [''reverse split'']),
      (''split'', [''stock split'', ''split '']),
      (''name/symbol change'', [''name/symbol change'', ''symbol change'', ''name change'']),
      (''merger'', [''merger'', ''combination'', ''acquisition'']),
      (''tender'', [''tender offer'']),
      (''liquidation'', [''liquidation''])]"

text \<open>The pattern \<open>\b\d+\s*for\s*\d+\b\<close> of line 135.\<close>

definition RE_RATIO :: rx where
  "RE_RATIO =
     Seq Wb (Seq (Rep Digit 1 None) (Seq (Rep Space 0 None) (Seq (lit ''for'')
       (Seq (Rep Space 0 None) (Seq (Rep Digit 1 None) Wb)))))"

text \<open>The loop of lines 129-132: the first label one of whose keys occurs in the text.\<close>

fun first_label :: "(string \<times> string list) list \<Rightarrow> string \<Rightarrow> string option" where
  "first_label [] text = None"
| "first_label ((label, keys) # rest) text =
     (if \<exists>k \<in> set keys. py_in k text then Some label else first_label rest text)"

text \<open>Lines 129-137 on the case-folded text.\<close>

definition classify_text :: "string \<Rightarrow> string option" where
  "classify_text text =
     (case first_label EVENT_KEYWORDS text of
        Some label \<Rightarrow> Some label
      | None \<Rightarrow>
          if py_in ''reverse'' text \<and> py_in ''split'' text then Some ''reverse split''
          else if py_in ''stock split'' text \<or> re_found RE_RATIO text then Some ''split''
          else None)"

text \<open>\<open>subject or ""\<close>.\<close>

definition or_empty :: "string option \<Rightarrow> string" where
  "or_empty s = (case s of None \<Rightarrow> [] | Some x \<Rightarrow> x)"

definition classify_event :: "string \<Rightarrow> string option \<Rightarrow> string option" where
  "classify_event title subject = classify_text (lower (title @ '' '' @ or_empty subject))"

section \<open>Numbers as text\<close>

definition digit_val :: "char \<Rightarrow> nat" where
  "digit_val c =
     (case map_of (zip ''0123456789'' [0, 1, 2, 3, 4, 5, 6, 7, 8, 9]) c of
        Some v \<Rightarrow> v
      | None \<Rightarrow> 0)"

text \<open>The value of a run of decimal digits.\<close>

definition digits_val :: "string \<Rightarrow> nat" where
  "digits_val s = foldl (\<lambda>acc c. 10 * acc + digit_val c) 0 s"

fun split_on :: "char \<Rightarrow> string \<Rightarrow> string \<Rightarrow> string list" where
  "split_on d acc [] = [rev acc]"
| "split_on d acc (c # cs) =
     (if c = d then rev acc # split_on d [] cs else split_on d (c # acc) cs)"

text \<open>
  The digits of an \<open>int(...)\<close> literal: groups of digits separated by single underscores.
\<close>

definition int_body :: "string \<Rightarrow> int option" where
  "int_body s =
     (let gs = split_on (CHR ''_'') [] s
      in if \<forall>g \<in> set gs. g \<noteq> [] \<and> list_all is_digit g
         then Some (int (digits_val (concat gs))) else None)"

text \<open>
  \<open>int(s)\<close> for a string: surrounding whitespace is dropped (here the separators 28..31
  do not count), one sign is allowed; \<open>None\<close> stands for the \<open>ValueError\<close>.
\<close>

definition is_int_space :: "char \<Rightarrow> bool" where
  "is_int_space c = (c \<in> set [CHR 0x09, CHR 0x0A, CHR 0x0B, CHR 0x0C, CHR 0x0D, CHR 0x20])"

definition py_int :: "string \<Rightarrow> int option" where
  "py_int s =
     (case rev (dropWhile is_int_space (rev (dropWhile is_int_space s))) of
        [] \<Rightarrow> None
      | c # cs \<Rightarrow>
          if c = CHR ''-'' then map_option uminus (int_body cs)
          else if c = CHR ''+'' then int_body cs
          else int_body (c # cs))"

definition digit_char :: "nat \<Rightarrow> char" where
  "digit_char n = ''0123456789'' ! (n mod 10)"

fun digits_of :: "nat \<Rightarrow> string" where
  "digits_of n = (if n < 10 then [digit_char n] else digits_of (n div 10) @ [digit_char n])"

declare digits_of.simps [simp del]

text \<open>\<open>str(n)\<close> for an integer.\<close>

definition str_int :: "int \<Rightarrow> string" where
  "str_int i = (if i < 0 then CHR ''-'' # digits_of (nat (- i)) else digits_of (nat i))"

text \<open>Zero padding on the left to a width.\<close>

definition zfill :: "nat \<Rightarrow> string \<Rightarrow> string" where
  "zfill w s = replicate (w - length s) (CHR ''0'') @ s"

section \<open>Date normalizer\<close>

text \<open>
  \<open>_to_iso\<close> (lines 52-57) hands the string to \<open>dateutil\<close>'s fuzzy parser and formats the
  result. The parser is a library outside the repository: it is the parameter \<open>parse\<close>,
  giving year, month and day of the parsed date, or \<open>None\<close> where it raises. The format
  \<open>%Y-%m-%d\<close> is written with the year padded to four digits.
\<close>

type_synonym ymd = "nat \<times> nat \<times> nat"

definition strftime_ymd :: "ymd \<Rightarrow> string" where
  "strftime_ymd d =
     (case d of (y, m, dd) \<Rightarrow>
        zfill 4 (digits_of y) @ ''-'' @ zfill 2 (digits_of m) @ ''-'' @ zfill 2 (digits_of dd))"

definition to_iso :: "(string \<Rightarrow> ymd option) \<Rightarrow> string \<Rightarrow> string option" where
  "to_iso parse date_str =
     (case parse date_str of None \<Rightarrow> None | Some d \<Rightarrow> Some (strftime_ymd d))"

section \<open>Patterns of the source\<close>

definition seq :: "rx list \<Rightarrow> rx" where
  "seq rs = foldr Seq rs Eps"

text \<open>\<open>[A-Za-z]{3,9}\s+\d{1,2},\s*\d{4}\<close>, the group of lines 43 and 45.\<close>

definition MONTH_DAY_YEAR :: rx where
  "MONTH_DAY_YEAR =
     seq [Rep Alpha 3 (Some 9), Rep Space 1 None, Rep Digit 1 (Some 2), lit '','',
          Rep Space 0 None, Rep Digit 4 (Some 4)]"

text \<open>Line 42: \<open>/infomemos\?number=(\d+)\<close>.\<close>

definition RE_MEMO_NUMBER :: pat where
  "RE_MEMO_NUMBER = (lit ''/infomemos?number='', Rep Digit 1 None, Eps)"

text \<open>Line 43, with \<open>re.I\<close>: \<open>Effective Date:\s*(...)\<close>.\<close>

definition RE_EFFECTIVE_DATE_LINE :: pat where
  "RE_EFFECTIVE_DATE_LINE =
     (seq [lit_ci ''Effective Date:'', Rep Space 0 None], MONTH_DAY_YEAR, Eps)"

text \<open>Line 44, with \<open>re.M\<close>: \<open>^Date:\s*(\d{1,2}/\d{1,2}/\d{4})\s*$\<close>.\<close>

definition RE_DATE_FIELD :: pat where
  "RE_DATE_FIELD =
     (seq [Bol, lit ''Date:'', Rep Space 0 None],
      seq [Rep Digit 1 (Some 2), lit ''/'', Rep Digit 1 (Some 2), lit ''/'', Rep Digit 4 (Some 4)],
      seq [Rep Space 0 None, Eol])"

text \<open>
  Line 45, with \<open>re.I\<close>:
  \<open>effective (?:at|before) the (?:open|opening) (?:of (?:the )?business )?(?:on )?(...)\<close>.
\<close>

definition RE_MARKET_OPEN_LINE :: pat where
  "RE_MARKET_OPEN_LINE =
     (seq [lit_ci ''effective '', Alt (lit_ci ''at'') (lit_ci ''before''), lit_ci '' the '',
           Alt (lit_ci ''open'') (lit_ci ''opening''), lit_ci '' '',
           opt (seq [lit_ci ''of '', opt (lit_ci ''the ''), lit_ci ''business '']),
           opt (lit_ci ''on '')],
      MONTH_DAY_YEAR, Eps)"

text \<open>Lines 46-48, with \<open>re.M | re.I\<close>: a label at the start of a line, then the line's rest.\<close>

definition RE_SUBJECT :: pat where
  "RE_SUBJECT = (seq [Bol, lit_ci ''Subject:'', Rep Space 0 None], Rep NotNL 1 None, Eol)"

definition RE_OPT_SYM :: pat where
  "RE_OPT_SYM =
     (seq [Bol, lit_ci ''Option Symbol'', Rep (LitCI (CHR ''s'')) 0 (Some 1), lit_ci '':'',
           Rep Space 0 None],
      Rep NotNL 1 None, Eol)"

definition RE_NEW_SYM :: pat where
  "RE_NEW_SYM =
     (seq [Bol, lit_ci ''New Symbol'', Rep (LitCI (CHR ''s'')) 0 (Some 1), lit_ci '':'',
           Rep Space 0 None],
      Rep NotNL 1 None, Eol)"

text \<open>Lines 49-50, with \<open>re.I\<close>: a label anywhere, then a token of \<open>[A-Za-z0-9/]+\<close>.\<close>

definition RE_TITLED_NEW_SYM :: pat where
  "RE_TITLED_NEW_SYM =
     (seq [lit_ci ''New Symbol'', Rep (LitCI (CHR ''s'')) 0 (Some 1), lit_ci '':'',
           Rep Space 0 None],
      Rep SymTok 1 None, Eps)"

definition RE_ADJUSTED_SYM :: pat where
  "RE_ADJUSTED_SYM =
     (seq [lit_ci ''Adjusted Option Symbol'', Rep (LitCI (CHR ''s'')) 0 (Some 1), lit_ci '':'',
           Rep Space 0 None],
      Rep SymTok 1 None, Eps)"

text \<open>Line 103: \<open>\d{2}/\d{2}/\d{4}\<close>, matched at the start of a fragment.\<close>

definition RE_DATE_SHAPE :: rx where
  "RE_DATE_SHAPE =
     seq [Rep Digit 2 (Some 2), lit ''/'', Rep Digit 2 (Some 2), lit ''/'', Rep Digit 4 (Some 4)]"

section \<open>Field extractor\<close>

record pdf_fields =
  f_subject :: "string option"
  f_option_symbols :: "string option"
  f_new_symbols :: "string option"
  f_effective_date :: "string option"

text \<open>\<open>m.group(1).strip()\<close> of a search, when it matches.\<close>

definition stripped_group :: "pat \<Rightarrow> string \<Rightarrow> string option" where
  "stripped_group p text = map_option strip (re_search p text)"

text \<open>Lines 156-166: the effective-date cascade.\<close>

definition effective_date_cascade :: "(string \<Rightarrow> ymd option) \<Rightarrow> string \<Rightarrow> string option" where
  "effective_date_cascade parse text =
     (case re_search RE_EFFECTIVE_DATE_LINE text of
        Some g \<Rightarrow> to_iso parse g
      | None \<Rightarrow>
          (case re_search RE_DATE_FIELD text of
             Some g \<Rightarrow> to_iso parse g
           | None \<Rightarrow>
               (case re_search RE_MARKET_OPEN_LINE text of
                  Some g \<Rightarrow> to_iso parse g
                | None \<Rightarrow> None)))"

text \<open>Lines 139-167.\<close>

definition parse_pdf_fields :: "(string \<Rightarrow> ymd option) \<Rightarrow> string \<Rightarrow> pdf_fields" where
  "parse_pdf_fields parse text =
     \<lparr> f_subject = stripped_group RE_SUBJECT text,
       f_option_symbols = stripped_group RE_OPT_SYM text,
       f_new_symbols =
         (case re_search RE_NEW_SYM text of
            Some g \<Rightarrow> Some (strip g)
          | None \<Rightarrow>
              (case re_search RE_TITLED_NEW_SYM text of
                 Some g \<Rightarrow> Some (strip g)
               | None \<Rightarrow> stripped_group RE_ADJUSTED_SYM text)),
       f_effective_date = effective_date_cascade parse text \<rparr>"

section \<open>Listing parser\<close>

text \<open>\<open>MemoRow\<close> (lines 59-70).\<close>

record MemoRow =
  memo_number :: int
  title :: string
  url :: string
  post_date :: "string option"
  effective_date :: "string option"
  event_type :: "string option"
  option_symbols :: "string option"
  new_symbols :: "string option"
  subject :: "string option"
  details :: "string option"

text \<open>
  The markup is read by \<open>BeautifulSoup\<close>, a library outside the repository. The parser is
  modelled on what the library hands to lines 80-99: the \<open>a\<close> elements that carry an
  \<open>href\<close>, in document order, each with its \<open>href\<close>, its text as
  \<open>get_text(strip=True)\<close> gives it, and the chain of \<open>previous_sibling\<close>s of its parent,
  nearest first. A sibling is an element, given by its \<open>get_text(" ", strip=True)\<close>, or a
  text node, given by its raw text.
\<close>

datatype node = Tag string | NavStr string

record anchor =
  href :: string
  link_text :: string
  prev_siblings :: "node list"

text \<open>The truth value of a sibling in \<open>while sib and cnt < 12\<close>: a text node is a \<open>str\<close>.\<close>

fun truthy :: "node \<Rightarrow> bool" where
  "truthy (Tag t) = True"
| "truthy (NavStr s) = (s \<noteq> [])"

fun node_text :: "node \<Rightarrow> string" where
  "node_text (Tag t) = t"
| "node_text (NavStr s) = strip s"

text \<open>Lines 91-100: at most \<open>cnt\<close> more siblings are read, walking backwards.\<close>

fun texts_back :: "nat \<Rightarrow> node list \<Rightarrow> string list" where
  "texts_back 0 sibs = []"
| "texts_back (Suc cnt) [] = []"
| "texts_back (Suc cnt) (sib # sibs) =
     (if truthy sib then node_text sib # texts_back cnt sibs else [])"

text \<open>Lines 101-102: the non-empty fragments, put back in reading order.\<close>

definition candidates :: "node list \<Rightarrow> string list" where
  "candidates sibs = rev (filter (\<lambda>t. t \<noteq> []) (texts_back 12 sibs))"

text \<open>Line 103.\<close>

definition dates :: "node list \<Rightarrow> string list" where
  "dates sibs = filter (re_match RE_DATE_SHAPE) (candidates sibs)"

text \<open>Lines 104-107: the post date and the effective-date hint.\<close>

definition date_hints ::
  "(string \<Rightarrow> ymd option) \<Rightarrow> node list \<Rightarrow> string option \<times> string option" where
  "date_hints parse sibs =
     (let ds = dates sibs
      in (if length ds \<ge> 1 then to_iso parse (ds ! 0) else None,
          if length ds \<ge> 2 then to_iso parse (ds ! 1) else None))"

definition BASE :: string where
  "BASE = ''https://infomemo.theocc.com''"

text \<open>Lines 81-111 for one anchor; \<open>None\<close> is the \<open>continue\<close> of line 83.\<close>

definition row_of_anchor :: "(string \<Rightarrow> ymd option) \<Rightarrow> anchor \<Rightarrow> MemoRow option" where
  "row_of_anchor parse a =
     (case re_search RE_MEMO_NUMBER (href a) of
        None \<Rightarrow> None
      | Some g \<Rightarrow>
          Some \<lparr> memo_number = int (digits_val g),
                 title = link_text a,
                 url = (if prefix ''/infomemos'' (href a) then BASE @ href a else href a),
                 post_date = fst (date_hints parse (prev_siblings a)),
                 effective_date = snd (date_hints parse (prev_siblings a)),
                 event_type = None, option_symbols = None, new_symbols = None,
                 subject = None, details = None \<rparr>)"

text \<open>Lines 79-111: the rows in scan order.\<close>

definition scan_rows :: "(string \<Rightarrow> ymd option) \<Rightarrow> anchor list \<Rightarrow> MemoRow list" where
  "scan_rows parse anchors = List.map_filter (row_of_anchor parse) anchors"

text \<open>
  Lines 112-115: the dict \<open>uniq\<close>, as the list of its values in insertion order; a row whose
  number is already a key is skipped.
\<close>

fun uniq :: "MemoRow list \<Rightarrow> MemoRow list \<Rightarrow> MemoRow list" where
  "uniq acc [] = acc"
| "uniq acc (r # rs) =
     (if memo_number r \<in> memo_number ` set acc then uniq acc rs else uniq (acc @ [r]) rs)"

text \<open>Line 116: a stable sort, descending in the number.\<close>

definition sorted_desc :: "MemoRow list \<Rightarrow> MemoRow list" where
  "sorted_desc rows = sort_key (\<lambda>x. - memo_number x) rows"

definition parse_search_listing :: "(string \<Rightarrow> ymd option) \<Rightarrow> anchor list \<Rightarrow> MemoRow list" where
  "parse_search_listing parse anchors = sorted_desc (uniq [] (scan_rows parse anchors))"

section \<open>The run\<close>

text \<open>The options of lines 211-221, as \<open>parse_args\<close> stores them.\<close>

record args =
  out :: string
  state :: string
  since_posted_days :: "int option"
  include_kws :: "string list"
  exclude_past_effective :: bool
  slack_webhook :: "string option"
  slack_token :: "string option"
  slack_channel :: "string option"
  slack_upload_files :: bool

datatype state_file = Absent | Unreadable | Content string

text \<open>
  What a run reads from outside: the library date parsers (\<open>fromisoformat\<close> gives the
  ordinal of the date, \<open>None\<close> where it raises), the document fetch of lines 118-125 (the
  text, or the message of the exception it raises), the clock (today's ordinal and the stamp
  \<open>%Y%m%d_%H%M%S\<close>), the parsed listing page and the state file. The listing fetch of
  lines 72-75 is the external collaborator that supplies the page (its line 74 refers to a
  name \<open>url\<close> that the function does not bind); the run is modelled from line 227 on, on
  the page it is given.
\<close>

record world =
  dateparse :: "string \<Rightarrow> ymd option"
  fromisoformat :: "string \<Rightarrow> int option"
  fetch_pdf_text :: "string \<Rightarrow> string + string"
  today :: int
  now_stamp :: string
  soup :: "anchor list"
  state_file :: state_file

datatype error = AttributeError | OverflowError

text \<open>The table of lines 279-289: one row per record, without the \<open>details\<close> field.\<close>

record df_row =
  col_memo_number :: int
  col_post_date :: "string option"
  col_effective_date :: "string option"
  col_event_type :: "string option"
  col_title :: string
  col_subject :: "string option"
  col_option_symbols :: "string option"
  col_new_symbols :: "string option"
  col_url :: string

datatype effect =
    MakeDirs string
  | PrintLine string
  | PrintSummary "df_row list"
  | ToExcel string "df_row list"
  | ToCsv string "df_row list"
  | WriteState string string
  | Webhook string "df_row list"
  | SlackPost string string "df_row list" "string list option"

datatype outcome = Returned | Raised error

text \<open>Line 227.\<close>

definition listing :: "world \<Rightarrow> MemoRow list" where
  "listing w = parse_search_listing (dateparse w) (soup w)"

text \<open>Lines 243-249: the watermark; a missing or unreadable file or a bad number reads as 0.\<close>

definition read_watermark :: "state_file \<Rightarrow> int" where
  "read_watermark sf =
     (case sf of
        Absent \<Rightarrow> 0
      | Unreadable \<Rightarrow> 0
      | Content s \<Rightarrow> (case py_int (strip s) of None \<Rightarrow> 0 | Some n \<Rightarrow> n))"

text \<open>
  \<open>dt.timedelta(days=n)\<close> and \<open>date - timedelta\<close> on ordinals; both raise
  \<open>OverflowError\<close> out of range.
\<close>

definition timedelta_days :: "int \<Rightarrow> error + int" where
  "timedelta_days n = (if - 999999999 \<le> n \<and> n \<le> 999999999 then Inr n else Inl OverflowError)"

definition date_sub :: "int \<Rightarrow> int \<Rightarrow> error + int" where
  "date_sub d n = (if 1 \<le> d - n \<and> d - n \<le> 3652059 then Inr (d - n) else Inl OverflowError)"

text \<open>Lines 235-241 for one row.\<close>

definition in_lookback :: "world \<Rightarrow> int \<Rightarrow> MemoRow \<Rightarrow> bool" where
  "in_lookback w cutoff r =
     (case post_date r of
        None \<Rightarrow> False
      | Some s \<Rightarrow>
          if s = [] then False
          else (case fromisoformat w s of None \<Rightarrow> False | Some d \<Rightarrow> cutoff \<le> d))"

text \<open>Lines 232-252: the selection stage.\<close>

definition picked :: "args \<Rightarrow> world \<Rightarrow> MemoRow list \<Rightarrow> error + MemoRow list" where
  "picked a w lst =
     (case since_posted_days a of
        Some n \<Rightarrow>
          (case timedelta_days n of
             Inl e \<Rightarrow> Inl e
           | Inr td \<Rightarrow>
               (case date_sub (today w) td of
                  Inl e \<Rightarrow> Inl e
                | Inr cutoff \<Rightarrow> Inr (filter (in_lookback w cutoff) lst)))
      | None \<Rightarrow> Inr (filter (\<lambda>r. memo_number r > read_watermark (state_file w)) lst))"

text \<open>\<open>x or y\<close> on optional strings: an empty string counts as absent.\<close>

definition py_or :: "string option \<Rightarrow> string option \<Rightarrow> string option" where
  "py_or x y = (case x of None \<Rightarrow> y | Some s \<Rightarrow> if s = [] then y else Some s)"

text \<open>Line 259.\<close>

definition include_text :: "args \<Rightarrow> string" where
  "include_text a = lower (join_sp (include_kws a))"

text \<open>Line 271.\<close>

definition hay :: "MemoRow \<Rightarrow> string" where
  "hay r = lower (title r @ '' '' @ or_empty (subject r))"

text \<open>
  Lines 261-277 for one picked row: the rows it adds to \<open>results\<close>. The \<open>except\<close> branch
  keeps the row, with the note; the \<open>continue\<close> of line 273 adds nothing.
\<close>

definition enrich :: "args \<Rightarrow> world \<Rightarrow> MemoRow \<Rightarrow> MemoRow list" where
  "enrich a w r =
     (case fetch_pdf_text w (url r) of
        Inl e \<Rightarrow> [r\<lparr>details := Some (''parse_error: '' @ e)\<rparr>]
      | Inr text \<Rightarrow>
          (let fields = parse_pdf_fields (dateparse w) text;
               r1 = r\<lparr>subject := f_subject fields,
                       option_symbols := py_or (f_option_symbols fields) (option_symbols r),
                       new_symbols := py_or (f_new_symbols fields) (new_symbols r),
                       effective_date := py_or (f_effective_date fields) (effective_date r)\<rparr>;
               r2 = r1\<lparr>event_type := classify_event (title r1) (subject r1)\<rparr>
           in if include_text a \<noteq> [] \<and> \<not> (\<exists>kw \<in> set (split (include_text a)). py_in kw (hay r2))
              then [] else [r2]))"

text \<open>Lines 258-277.\<close>

definition results :: "args \<Rightarrow> world \<Rightarrow> MemoRow list \<Rightarrow> MemoRow list" where
  "results a w rs = concat (map (enrich a w) rs)"

definition to_df_row :: "MemoRow \<Rightarrow> df_row" where
  "to_df_row r =
     \<lparr> col_memo_number = memo_number r, col_post_date = post_date r,
       col_effective_date = effective_date r, col_event_type = event_type r,
       col_title = title r, col_subject = subject r,
       col_option_symbols = option_symbols r, col_new_symbols = new_symbols r,
       col_url = url r \<rparr>"

text \<open>
  Line 291 reads \<open>args.exclude-past-effective\<close>, which is the subtraction
  \<open>args.exclude - past - effective\<close>. The namespace holds the flag under
  \<open>exclude_past_effective\<close> and has no attribute \<open>exclude\<close>, so the leftmost operand
  raises \<open>AttributeError\<close> before anything else of the condition is evaluated.
\<close>

definition exclude_flag_expr :: "args \<Rightarrow> error + bool" where
  "exclude_flag_expr a = Inl AttributeError"

text \<open>
  Lines 292-298: a row is kept when its effective date is missing or does not parse, or is
  today or later.
\<close>

definition keep_effective :: "world \<Rightarrow> df_row \<Rightarrow> bool" where
  "keep_effective w r =
     (case col_effective_date r of
        None \<Rightarrow> True
      | Some s \<Rightarrow> (case fromisoformat w s of None \<Rightarrow> True | Some d \<Rightarrow> today w \<le> d))"

text \<open>Line 331.\<close>

definition max_num :: "MemoRow list \<Rightarrow> int" where
  "max_num lst =
     (case lst of [] \<Rightarrow> 0 | r # rs \<Rightarrow> fold max (map memo_number rs) (memo_number r))"

text \<open>\<open>os.path.join(dir, name)\<close> for a relative \<open>name\<close>.\<close>

definition path_join :: "string \<Rightarrow> string \<Rightarrow> string" where
  "path_join d name = (if d = [] \<or> last d = CHR ''/'' then d @ name else d @ ''/'' @ name)"

text \<open>\<open>if x:\<close> on an optional string.\<close>

definition given :: "string option \<Rightarrow> bool" where
  "given x = (case x of None \<Rightarrow> False | Some s \<Rightarrow> s \<noteq> [])"

text \<open>
  Lines 291-343, from the value of the flag on: the filter, the sort, the three files, the
  printed summary, the state file and the notifications. The summary text of lines 314-327
  is rendered from the table, which the effect carries in its place.
\<close>

definition finish_run ::
  "args \<Rightarrow> world \<Rightarrow> MemoRow list \<Rightarrow> bool \<Rightarrow> df_row list \<Rightarrow> effect list" where
  "finish_run a w lst flag df =
     (let df1 = (if flag \<and> df \<noteq> [] then filter (keep_effective w) df else df);
          df2 = (if df1 \<noteq> [] then sort_key (\<lambda>r. - col_memo_number r) df1 else df1);
          xlsx_path = path_join (out a) (''OCC_memos_'' @ now_stamp w @ ''.xlsx'');
          csv_path = path_join (out a) (''OCC_memos_'' @ now_stamp w @ ''.csv'');
          latest_csv = path_join (out a) ''latest.csv''
      in [ToExcel xlsx_path df2, ToCsv csv_path df2, ToCsv latest_csv df2, PrintSummary df2,
          WriteState (state a) (str_int (max_num lst))]
         @ (if given (slack_webhook a) then [Webhook (or_empty (slack_webhook a)) df2] else [])
         @ (if given (slack_token a) \<and> given (slack_channel a)
            then [SlackPost (or_empty (slack_token a)) (or_empty (slack_channel a)) df2
                    (if slack_upload_files a then Some [xlsx_path, csv_path] else None)]
            else []))"

text \<open>
  Lines 223-343, from the parsed page on: what the run does to the outside, in order, and
  how it ends.
\<close>

definition main :: "args \<Rightarrow> world \<Rightarrow> effect list \<times> outcome" where
  "main a w =
     (case picked a w (listing w) of
        Inl e \<Rightarrow> ([MakeDirs (out a)], Raised e)
      | Inr pk \<Rightarrow>
          if pk = []
          then ([MakeDirs (out a), PrintLine ''No new memos found on search page.''], Returned)
          else
            (let df = map to_df_row (results a w pk)
             in case exclude_flag_expr a of
                  Inl e \<Rightarrow> ([MakeDirs (out a)], Raised e)
                | Inr flag \<Rightarrow> (MakeDirs (out a) # finish_run a w (listing w) flag df, Returned)))"

text \<open>The table an effect carries, if any.\<close>

fun table_of :: "effect \<Rightarrow> df_row list" where
  "table_of (PrintSummary df) = df"
| "table_of (ToExcel path df) = df"
| "table_of (ToCsv path df) = df"
| "table_of (Webhook hook df) = df"
| "table_of (SlackPost token channel df files) = df"
| "table_of (MakeDirs path) = []"
| "table_of (PrintLine line) = []"
| "table_of (WriteState path n) = []"

section \<open>Sample inputs\<close>

text \<open>
  The answers of the library parsers on the date strings used below. \<open>Feb 30, 2025\<close> is
  not in the table: the parser rejects it (the day is out of range for the month).
\<close>

definition sample_parse :: "string \<Rightarrow> ymd option" where
  "sample_parse s =
     map_of [(''03/04/2025'', (2025, 3, 4)), (''05/01/2025'', (2025, 5, 1)),
             (''May 1, 2025'', (2025, 5, 1)), (''March 3, 2025'', (2025, 3, 3))] s"

definition sample_fromisoformat :: "string \<Rightarrow> int option" where
  "sample_fromisoformat s = map_of [(''2025-03-04'', 739314), (''2025-05-01'', 739372)] s"

definition reverse_stock_split_title :: string where
  "reverse_stock_split_title =
     ''Notice of Reverse Stock Split '' @ [CHR 0xE2, CHR 0x80, CHR 0x94] @ '' XYZ''"

definition doc_bad_label :: string where
  "doc_bad_label =
     ''Effective Date: Feb 30, 2025'' @ [newline] @ ''Date: 03/04/2025'' @ [newline]"

definition doc_label :: string where
  "doc_label = ''Effective Date: May 1, 2025'' @ [newline] @ ''Date: 03/04/2025'' @ [newline]"

definition doc_date_field :: string where
  "doc_date_field = ''Subject: Cash Dividend'' @ [newline] @ ''Date: 03/04/2025'' @ [newline]"

definition doc_market_open :: string where
  "doc_market_open =
     ''Adjustments become effective before the opening of business on March 3, 2025.''"

definition doc_plain :: string where
  "doc_plain = ''Subject: Cash Dividend'' @ [newline]"

definition siblings_dated :: "node list" where
  "siblings_dated = [Tag ''03/04/2025'', NavStr ''  '', Tag ''Memo'']"

definition siblings_undated :: "node list" where
  "siblings_undated = [Tag ''Posted 03/04/2025'', NavStr ''  '', Tag ''3/4/2025'']"

definition sample_soup :: "anchor list" where
  "sample_soup =
     [\<lparr> href = ''/infomemos?number=102'', link_text = ''Foo Corp'',
         prev_siblings = siblings_undated \<rparr>,
      \<lparr> href = ''/infomemos?number=103'', link_text = ''Bar Inc - Reverse Split'',
         prev_siblings = siblings_dated \<rparr>,
      \<lparr> href = ''/about'', link_text = ''About'', prev_siblings = [] \<rparr>,
      \<lparr> href = ''/infomemos?number=101'', link_text = ''Baz Holdings'', prev_siblings = [] \<rparr>,
      \<lparr> href = ''https://infomemo.theocc.com/infomemos?number=103'',
         link_text = ''Bar Inc (repeated)'', prev_siblings = [] \<rparr>]"

definition sample_fetch :: "string \<Rightarrow> string + string" where
  "sample_fetch u =
     (if u = ''https://infomemo.theocc.com/infomemos?number=103'' then Inr doc_label
      else if u = ''https://infomemo.theocc.com/infomemos?number=101'' then Inr doc_plain
      else Inl ''404 Client Error'')"

definition sample_world :: world where
  "sample_world =
     \<lparr> dateparse = sample_parse, fromisoformat = sample_fromisoformat,
       fetch_pdf_text = sample_fetch, today = 739403, now_stamp = ''20250601_083000'',
       soup = sample_soup, state_file = Absent \<rparr>"

text \<open>The defaults of lines 212-220.\<close>

definition sample_args :: args where
  "sample_args =
     \<lparr> out = ''./out'', state = ''./occ_last_number.txt'', since_posted_days = None,
       include_kws = [''reverse'', ''split'', ''name'', ''symbol'', ''merger''],
       exclude_past_effective = False, slack_webhook = None, slack_token = None,
       slack_channel = None, slack_upload_files = False \<rparr>"

text \<open>The same world with the watermark already at 103, and a one-day lookback.\<close>

definition sample_world_seen :: world where
  "sample_world_seen = sample_world\<lparr>state_file := Content ''103''\<rparr>"

definition sample_world_101 :: world where
  "sample_world_101 = sample_world\<lparr>state_file := Content ''101''\<rparr>"


definition sample_args_toggle :: args where
  "sample_args_toggle = sample_args\<lparr>exclude_past_effective := True\<rparr>"

definition row_103 :: MemoRow where
  "row_103 =
     \<lparr> memo_number = 103, title = ''Bar Inc - Reverse Split'',
       url = ''https://infomemo.theocc.com/infomemos?number=103'',
       post_date = Some ''2025-03-04'', effective_date = None, event_type = None,
       option_symbols = None, new_symbols = None, subject = None, details = None \<rparr>"

definition row_102 :: MemoRow where
  "row_102 =
     \<lparr> memo_number = 102, title = ''Foo Corp'',
       url = ''https://infomemo.theocc.com/infomemos?number=102'',
       post_date = None, effective_date = None, event_type = None,
       option_symbols = None, new_symbols = None, subject = None, details = None \<rparr>"

definition row_101 :: MemoRow where
  "row_101 =
     \<lparr> memo_number = 101, title = ''Baz Holdings'',
       url = ''https://infomemo.theocc.com/infomemos?number=101'',
       post_date = None, effective_date = None, event_type = None,
       option_symbols = None, new_symbols = None, subject = None, details = None \<rparr>"

text \<open>
  A page with one memo, listed with post date 03/04/2025 and effective date 05/01/2025,
  whose document cannot be fetched.
\<close>

definition sample_anchor_104 :: anchor where
  "sample_anchor_104 =
     \<lparr> href = ''/infomemos?number=104'', link_text = ''Qux Corp'',
       prev_siblings = [Tag ''05/01/2025'', Tag ''03/04/2025''] \<rparr>"

definition sample_world_104 :: world where
  "sample_world_104 = sample_world\<lparr>soup := [sample_anchor_104]\<rparr>"

definition row_104 :: MemoRow where
  "row_104 =
     \<lparr> memo_number = 104, title = ''Qux Corp'',
       url = ''https://infomemo.theocc.com/infomemos?number=104'',
       post_date = Some ''2025-03-04'', effective_date = Some ''2025-05-01'',
       event_type = None, option_symbols = None, new_symbols = None, subject = None,
       details = None \<rparr>"

section \<open>Event classifier: properties\<close>

text \<open>
  C1. The title \<open>Notice of Reverse Stock Split (em dash) XYZ\<close> with no subject, whose
  case-folded form is as the claim gives it, is classified by \<open>classify_event\<close> as
  \<open>split\<close>: the key \<open>stock split\<close> of the second taxonomy entry occurs in the text,
  the key \<open>reverse split\<close> of the first does not, and the loop returns before line 133.
\<close>

theorem classify_event_reverse_stock_split:
  "lower reverse_stock_split_title
     = ''notice of reverse stock split '' @ [CHR 0xE2, CHR 0x80, CHR 0x94] @ '' xyz''
   \<and> classify_event reverse_stock_split_title None = Some ''split''"
  by code_simp

text \<open>The two other parts of the classification rule hold on every text.\<close>

lemma classify_text_tender:
  assumes "py_in ''tender offer'' t"
    and "\<forall>(label, keys) \<in> set (take 4 EVENT_KEYWORDS). \<forall>k \<in> set keys. \<not> py_in k t"
  shows "classify_text t = Some ''tender''"
  using assms by (simp add: classify_text_def EVENT_KEYWORDS_def)

lemma classify_text_absent:
  assumes "\<forall>(label, keys) \<in> set EVENT_KEYWORDS. \<forall>k \<in> set keys. \<not> py_in k t"
    and "\<not> (py_in ''reverse'' t \<and> py_in ''split'' t)"
    and "\<not> py_in ''stock split'' t"
    and "\<not> re_found RE_RATIO t"
  shows "classify_text t = None"
  using assms by (simp add: classify_text_def EVENT_KEYWORDS_def)

section \<open>Field extractor: properties\<close>

text \<open>
  C2, as stated, fails: in \<open>doc_bad_label\<close> the \<open>Effective Date:\<close> label matches, its
  capture does not normalize, the \<open>Date:\<close> line below matches and normalizes, and the
  extracted effective date is absent all the same.
\<close>

theorem cascade_fallthrough_counterexample:
  "re_search RE_EFFECTIVE_DATE_LINE doc_bad_label = Some ''Feb 30, 2025''
   \<and> to_iso sample_parse ''Feb 30, 2025'' = None
   \<and> re_search RE_DATE_FIELD doc_bad_label = Some ''03/04/2025''
   \<and> to_iso sample_parse ''03/04/2025'' = Some ''2025-03-04''
   \<and> f_effective_date (parse_pdf_fields sample_parse doc_bad_label) = None"
  by code_simp

text \<open>
  C2, amended. In the effective-date cascade of \<open>parse_pdf_fields\<close> the first pattern that
  matches decides: the result is the normalization of its capture, absent when that fails,
  and a later pattern is consulted only when every earlier one fails to match. With no
  match at all the effective date is absent.
\<close>

theorem effective_date_first_match_decides:
  "(re_search RE_EFFECTIVE_DATE_LINE t = Some g \<longrightarrow>
      f_effective_date (parse_pdf_fields parse t) = to_iso parse g)
   \<and> (re_search RE_EFFECTIVE_DATE_LINE t = None \<and> re_search RE_DATE_FIELD t = Some g \<longrightarrow>
      f_effective_date (parse_pdf_fields parse t) = to_iso parse g)
   \<and> (re_search RE_EFFECTIVE_DATE_LINE t = None \<and> re_search RE_DATE_FIELD t = None
        \<and> re_search RE_MARKET_OPEN_LINE t = Some g \<longrightarrow>
      f_effective_date (parse_pdf_fields parse t) = to_iso parse g)
   \<and> (re_search RE_EFFECTIVE_DATE_LINE t = None \<and> re_search RE_DATE_FIELD t = None
        \<and> re_search RE_MARKET_OPEN_LINE t = None \<longrightarrow>
      f_effective_date (parse_pdf_fields parse t) = None)"
  by (simp add: parse_pdf_fields_def effective_date_cascade_def)

theorem effective_date_first_match_decides_witness:
  "re_search RE_EFFECTIVE_DATE_LINE doc_label = Some ''May 1, 2025''
   \<and> f_effective_date (parse_pdf_fields sample_parse doc_label) = Some ''2025-05-01''
   \<and> re_search RE_EFFECTIVE_DATE_LINE doc_date_field = None
   \<and> re_search RE_DATE_FIELD doc_date_field = Some ''03/04/2025''
   \<and> f_effective_date (parse_pdf_fields sample_parse doc_date_field) = Some ''2025-03-04''
   \<and> re_search RE_DATE_FIELD doc_market_open = None
   \<and> re_search RE_MARKET_OPEN_LINE doc_market_open = Some ''March 3, 2025''
   \<and> f_effective_date (parse_pdf_fields sample_parse doc_market_open) = Some ''2025-03-03''
   \<and> re_search RE_MARKET_OPEN_LINE doc_plain = None
   \<and> f_effective_date (parse_pdf_fields sample_parse doc_plain) = None"
proof -
  have a: "re_search RE_EFFECTIVE_DATE_LINE doc_label = Some ''May 1, 2025''"
    by code_simp
  have b: "re_search RE_EFFECTIVE_DATE_LINE doc_date_field = None"
    "re_search RE_DATE_FIELD doc_date_field = Some ''03/04/2025''"
    by code_simp+
  have c: "re_search RE_EFFECTIVE_DATE_LINE doc_market_open = None"
    "re_search RE_DATE_FIELD doc_market_open = None"
    "re_search RE_MARKET_OPEN_LINE doc_market_open = Some ''March 3, 2025''"
    by code_simp+
  have d: "re_search RE_EFFECTIVE_DATE_LINE doc_plain = None"
    "re_search RE_DATE_FIELD doc_plain = None"
    "re_search RE_MARKET_OPEN_LINE doc_plain = None"
    by code_simp+
  have i: "to_iso sample_parse ''May 1, 2025'' = Some ''2025-05-01''"
    "to_iso sample_parse ''03/04/2025'' = Some ''2025-03-04''"
    "to_iso sample_parse ''March 3, 2025'' = Some ''2025-03-03''"
    by code_simp+
  show ?thesis
    using effective_date_first_match_decides [of doc_label "''May 1, 2025''" sample_parse]
      effective_date_first_match_decides [of doc_date_field "''03/04/2025''" sample_parse]
      effective_date_first_match_decides [of doc_market_open "''March 3, 2025''" sample_parse]
      effective_date_first_match_decides [of doc_plain "''x''" sample_parse]
    by (simp add: a b c d i)
qed

section \<open>Listing parser: properties\<close>

lemma uniq_distinct:
  "distinct (map memo_number acc) \<Longrightarrow> distinct (map memo_number (uniq acc rs))"
  by (induction rs arbitrary: acc) auto

lemma uniq_numbers:
  "memo_number ` set (uniq acc rs) = memo_number ` (set acc \<union> set rs)"
  by (induction rs arbitrary: acc) auto

lemma uniq_first:
  "r \<in> set (uniq acc rs) \<Longrightarrow>
     r \<in> set acc \<or>
     (memo_number r \<notin> memo_number ` set acc
        \<and> find (\<lambda>x. memo_number x = memo_number r) rs = Some r)"
proof (induction rs arbitrary: acc)
  case Nil
  then show ?case by simp
next
  case (Cons x xs)
  show ?case
  proof (cases "memo_number x \<in> memo_number ` set acc")
    case True
    with Cons.prems have "r \<in> set (uniq acc xs)" by simp
    from Cons.IH [OF this] True show ?thesis by auto
  next
    case False
    with Cons.prems have "r \<in> set (uniq (acc @ [x]) xs)" by simp
    from Cons.IH [OF this] False show ?thesis by auto
  qed
qed

lemma sorted_desc_set: "set (sorted_desc rows) = set rows"
  by (simp add: sorted_desc_def)

lemma strict_of_sorted_distinct:
  fixes f :: "'a \<Rightarrow> int"
  shows "sorted_wrt (\<lambda>x y. f y \<le> f x) xs \<Longrightarrow> distinct (map f xs)
    \<Longrightarrow> sorted_wrt (\<lambda>x y. f y < f x) xs"
proof (induction xs)
  case Nil
  then show ?case by simp
next
  case (Cons a xs)
  have "f y < f a" if "y \<in> set xs" for y
  proof -
    from Cons.prems(1) that have "f y \<le> f a" by simp
    moreover from Cons.prems(2) that have "f a \<noteq> f y" by force
    ultimately show ?thesis by simp
  qed
  moreover have "sorted_wrt (\<lambda>x y. f y < f x) xs"
    using Cons by simp
  ultimately show ?case by simp
qed

lemma sorted_desc_strict:
  assumes "distinct (map memo_number rows)"
  shows "sorted_wrt (\<lambda>x y. memo_number y < memo_number x) (sorted_desc rows)"
proof -
  let ?L = "sorted_desc rows"
  have "sorted (map (\<lambda>x. - memo_number x) ?L)"
    by (simp add: sorted_desc_def)
  then have "sorted_wrt (\<lambda>x y. memo_number y \<le> memo_number x) ?L"
    by (simp add: sorted_wrt_map)
  moreover have "distinct (map memo_number ?L)"
    using assms by (simp add: distinct_map sorted_desc_def)
  ultimately show ?thesis
    by (rule strict_of_sorted_distinct)
qed

lemma sample_scan:
  "scan_rows sample_parse sample_soup =
     [row_102, row_103, row_101, row_103\<lparr>title := ''Bar Inc (repeated)'', post_date := None\<rparr>]"
  by code_simp

lemma sample_parsed: "parse_search_listing sample_parse sample_soup = [row_103, row_102, row_101]"
  by code_simp

text \<open>
  C6. Whatever anchors the page has, \<open>parse_search_listing\<close> returns rows with pairwise
  different numbers, in strictly descending order of the number; each returned row is the
  first row of the scan that has its number, and every number of the scan is returned.
\<close>

theorem parse_search_listing_unique_sorted_first:
  "distinct (map memo_number (parse_search_listing parse anchors))
   \<and> sorted_wrt (\<lambda>x y. memo_number y < memo_number x) (parse_search_listing parse anchors)
   \<and> (\<forall>r \<in> set (parse_search_listing parse anchors).
         find (\<lambda>x. memo_number x = memo_number r) (scan_rows parse anchors) = Some r)
   \<and> memo_number ` set (parse_search_listing parse anchors)
       = memo_number ` set (scan_rows parse anchors)"
proof -
  let ?rows = "scan_rows parse anchors"
  have d: "distinct (map memo_number (uniq [] ?rows))"
    by (rule uniq_distinct) simp
  have 1: "distinct (map memo_number (parse_search_listing parse anchors))"
    using d by (simp add: parse_search_listing_def distinct_map sorted_desc_def)
  have 2: "sorted_wrt (\<lambda>x y. memo_number y < memo_number x) (parse_search_listing parse anchors)"
    unfolding parse_search_listing_def by (rule sorted_desc_strict [OF d])
  have 3: "find (\<lambda>x. memo_number x = memo_number r) ?rows = Some r"
    if "r \<in> set (parse_search_listing parse anchors)" for r
  proof -
    from that have "r \<in> set (uniq [] ?rows)"
      by (simp add: parse_search_listing_def sorted_desc_set)
    from uniq_first [OF this] show ?thesis by simp
  qed
  have 4: "memo_number ` set (parse_search_listing parse anchors) = memo_number ` set ?rows"
    by (simp add: parse_search_listing_def sorted_desc_set uniq_numbers)
  from 1 2 3 4 show ?thesis by blast
qed

theorem parse_search_listing_unique_sorted_first_witness:
  "map memo_number (scan_rows sample_parse sample_soup) = [102, 103, 101, 103]
   \<and> parse_search_listing sample_parse sample_soup = [row_103, row_102, row_101]
   \<and> distinct (map memo_number (parse_search_listing sample_parse sample_soup))
   \<and> find (\<lambda>x. memo_number x = memo_number row_103) (scan_rows sample_parse sample_soup)
       = Some row_103"
proof -
  have "map memo_number (scan_rows sample_parse sample_soup) = [102, 103, 101, 103]"
    unfolding sample_scan by code_simp
  with parse_search_listing_unique_sorted_first [of sample_parse sample_soup] sample_parsed
  show ?thesis by simp
qed

section \<open>The run: the sample inputs evaluated\<close>

lemma sample_listing: "listing sample_world = [row_103, row_102, row_101]"
  by code_simp

lemma sample_listing_101: "listing sample_world_101 = [row_103, row_102, row_101]"
  by code_simp

lemma sample_listing_seen: "listing sample_world_seen = [row_103, row_102, row_101]"
  by code_simp

lemma sample_picked: "picked sample_args sample_world [row_103, row_102, row_101] = Inr [row_103, row_102, row_101]"
  by code_simp

lemma sample_picked_101: "picked sample_args sample_world_101 [row_103, row_102, row_101] = Inr [row_103, row_102]"
  by code_simp

lemma sample_picked_seen: "picked sample_args sample_world_seen [row_103, row_102, row_101] = Inr []"
  by code_simp


lemma sample_enrich_103:
  "enrich sample_args sample_world row_103 =
     [row_103\<lparr>effective_date := Some ''2025-05-01'', event_type := Some ''reverse split''\<rparr>]"
  by code_simp

lemma sample_enrich_102:
  "enrich sample_args sample_world row_102 = [row_102\<lparr>details := Some ''parse_error: 404 Client Error''\<rparr>]"
  by code_simp

lemma sample_enrich_101: "enrich sample_args sample_world row_101 = []"
  by code_simp

section \<open>The run: selection and enrichment\<close>

lemma enrich_cases:
  assumes "r' \<in> set (enrich a w r)"
  shows "(\<exists>e. fetch_pdf_text w (url r) = Inl e \<and> r' = r\<lparr>details := Some (''parse_error: '' @ e)\<rparr>)
         \<or> ((\<exists>text. fetch_pdf_text w (url r) = Inr text) \<and> memo_number r' = memo_number r
             \<and> title r' = title r \<and> url r' = url r \<and> details r' = details r
             \<and> (include_text a \<noteq> [] \<longrightarrow> (\<exists>kw \<in> set (split (include_text a)). py_in kw (hay r'))))"
proof (cases "fetch_pdf_text w (url r)")
  case (Inl e)
  with assms show ?thesis by (simp add: enrich_def)
next
  case (Inr doc)
  with assms show ?thesis
    by (auto simp: enrich_def Let_def split: if_splits)
qed

lemma enrich_memo_number: "r' \<in> set (enrich a w r) \<Longrightarrow> memo_number r' = memo_number r"
  using enrich_cases [of r' a w r] by auto

lemma results_origin:
  "r' \<in> set (results a w pk) \<Longrightarrow> \<exists>r \<in> set pk. r' \<in> set (enrich a w r)"
  by (auto simp: results_def)

lemma enrich_error:
  "fetch_pdf_text w (url r) = Inl e \<Longrightarrow> enrich a w r = [r\<lparr>details := Some (''parse_error: '' @ e)\<rparr>]"
  by (simp add: enrich_def)

lemma picked_watermark:
  assumes "since_posted_days a = None" and "picked a w lst = Inr pk"
  shows "pk = filter (\<lambda>r. read_watermark (state_file w) < memo_number r) lst"
  using assms by (simp add: picked_def)

lemma finish_run_tables:
  assumes "fx \<in> set (finish_run a w lst flag df)" and "d \<in> set (table_of fx)"
  shows "d \<in> set df"
  using assms by (auto simp: finish_run_def Let_def split: if_splits)



lemma main_early_return:
  assumes "picked a w (listing w) = Inr []"
  shows "main a w = ([MakeDirs (out a), PrintLine ''No new memos found on search page.''], Returned)"
  using assms by (simp add: main_def)

lemma main_raises_after_selection:
  assumes "picked a w (listing w) = Inr pk" and "pk \<noteq> []"
  shows "main a w = ([MakeDirs (out a)], Raised AttributeError)"
  using assms by (simp add: main_def exclude_flag_expr_def)

lemma keep_effective_iff:
  "keep_effective w d \<longleftrightarrow>
     (\<forall>s day. col_effective_date d = Some s \<and> fromisoformat w s = Some day \<longrightarrow> today w \<le> day)"
  by (auto simp: keep_effective_def split: option.splits)

lemma enrich_state_file: "enrich a (w\<lparr>state_file := s\<rparr>) = enrich a w"
  by (rule ext) (simp add: enrich_def Let_def split: sum.splits)

lemma results_state_file: "results a (w\<lparr>state_file := s\<rparr>) pk = results a w pk"
  by (simp add: results_def enrich_state_file)

lemma enrich_toggle: "enrich (a\<lparr>exclude_past_effective := b\<rparr>) w = enrich a w"
  by (rule ext) (simp add: enrich_def include_text_def Let_def split: sum.splits)

lemma results_toggle: "results (a\<lparr>exclude_past_effective := b\<rparr>) w pk = results a w pk"
  by (simp add: results_def enrich_toggle)

lemma picked_toggle: "picked (a\<lparr>exclude_past_effective := b\<rparr>) w lst = picked a w lst"
  by (simp add: picked_def)


lemma sample_results:
  "results sample_args sample_world [row_103, row_102, row_101] =
     [row_103\<lparr>effective_date := Some ''2025-05-01'', event_type := Some ''reverse split''\<rparr>,
      row_102\<lparr>details := Some ''parse_error: 404 Client Error''\<rparr>]"
  by (simp add: results_def sample_enrich_103 sample_enrich_102 sample_enrich_101)

text \<open>
  C3. In watermark mode (no lookback-day count), every record that the run assembles, and
  every row of every table the end of the run would write from them, has a number strictly
  greater than the watermark read from the state file at the start; an absent or unreadable
  state file reads as 0.
\<close>

theorem watermark_mode_records_above_watermark:
  assumes "since_posted_days a = None" and "picked a w (listing w) = Inr pk"
  shows "(\<forall>r \<in> set (results a w pk). read_watermark (state_file w) < memo_number r)
         \<and> (\<forall>flag. \<forall>fx \<in> set (finish_run a w (listing w) flag (map to_df_row (results a w pk))).
               \<forall>d \<in> set (table_of fx). read_watermark (state_file w) < col_memo_number d)
         \<and> read_watermark Absent = 0 \<and> read_watermark Unreadable = 0"
proof -
  have pk: "\<forall>r \<in> set pk. read_watermark (state_file w) < memo_number r"
    using picked_watermark [OF assms] by simp
  have res: "read_watermark (state_file w) < memo_number r'" if "r' \<in> set (results a w pk)" for r'
  proof -
    from results_origin [OF that] obtain r where "r \<in> set pk" "r' \<in> set (enrich a w r)"
      by blast
    with pk enrich_memo_number show ?thesis by fastforce
  qed
  have "read_watermark (state_file w) < col_memo_number d"
    if "fx \<in> set (finish_run a w (listing w) flag (map to_df_row (results a w pk)))"
      and "d \<in> set (table_of fx)" for flag fx d
  proof -
    from finish_run_tables [OF that] obtain r' where "r' \<in> set (results a w pk)" "d = to_df_row r'"
      by auto
    with res show ?thesis by (simp add: to_df_row_def)
  qed
  with res show ?thesis by (simp add: read_watermark_def)
qed

theorem watermark_mode_records_above_watermark_witness:
  "since_posted_days sample_args = None
   \<and> picked sample_args sample_world_101 (listing sample_world_101) = Inr [row_103, row_102]
   \<and> read_watermark (state_file sample_world_101) = 101
   \<and> map memo_number (results sample_args sample_world_101 [row_103, row_102]) = [103, 102]
   \<and> list_all (\<lambda>r. 101 < memo_number r) (results sample_args sample_world_101 [row_103, row_102])"
proof -
  have m: "since_posted_days sample_args = None" by code_simp
  have p: "picked sample_args sample_world_101 (listing sample_world_101) = Inr [row_103, row_102]"
    by (simp add: sample_listing_101 sample_picked_101)
  have w: "read_watermark (state_file sample_world_101) = 101" by code_simp
  have r: "map memo_number (results sample_args sample_world_101 [row_103, row_102]) = [103, 102]"
    by code_simp
  from watermark_mode_records_above_watermark [OF m p] m p w r show ?thesis
    by (simp add: list_all_iff)
qed

lemma sample_listing_104: "listing sample_world_104 = [row_104]"
  by code_simp

lemma sample_picked_104: "picked sample_args_toggle sample_world_104 [row_104] = Inr [row_104]"
  by code_simp

lemma finish_run_row:
  assumes "d \<in> set df" and "fx \<in> set (finish_run a w lst flag df)"
  shows "(\<exists>p c. fx = WriteState p c)
         \<or> (d \<in> set (table_of fx) \<longleftrightarrow> (flag \<longrightarrow> keep_effective w d))"
proof -
  have ne: "df \<noteq> []" using assms(1) by auto
  let ?df1 = "if flag \<and> df \<noteq> [] then filter (keep_effective w) df else df"
  let ?df2 = "if ?df1 \<noteq> [] then sort_key (\<lambda>r. - col_memo_number r) ?df1 else ?df1"
  have "set ?df2 = set ?df1"
    by (cases "?df1 = []") simp_all
  moreover have "d \<in> set ?df1 \<longleftrightarrow> (flag \<longrightarrow> keep_effective w d)"
    using assms(1) ne by simp
  ultimately have t: "d \<in> set ?df2 \<longleftrightarrow> (flag \<longrightarrow> keep_effective w d)"
    by simp
  from assms(2) have "(\<exists>p c. fx = WriteState p c) \<or> table_of fx = ?df2"
    by (auto simp: finish_run_def Let_def split: if_splits)
  with t show ?thesis by auto
qed

text \<open>
  C8, as stated, fails. In the sample run memo 102 is picked and its fetch raises, and the
  run ends at line 291 with \<open>AttributeError\<close>, having written no record at all; the table
  row of the record is the same with and without the note. On the page with memo 104, whose
  fetch raises too, the record is in the result list, and the end of the run with the
  past-effective filter on writes empty tables: the listing's effective-date hint
  2025-05-01 is before today, 2025-06-01.
\<close>

theorem fetch_error_row_counterexample:
  "picked sample_args sample_world (listing sample_world) = Inr [row_103, row_102, row_101]
   \<and> fetch_pdf_text sample_world (url row_102) = Inl ''404 Client Error''
   \<and> main sample_args sample_world = ([MakeDirs ''./out''], Raised AttributeError)
   \<and> to_df_row (row_102\<lparr>details := Some ''parse_error: 404 Client Error''\<rparr>) = to_df_row row_102
   \<and> picked sample_args_toggle sample_world_104 (listing sample_world_104) = Inr [row_104]
   \<and> fetch_pdf_text sample_world_104 (url row_104) = Inl ''404 Client Error''
   \<and> results sample_args_toggle sample_world_104 [row_104]
       = [row_104\<lparr>details := Some ''parse_error: 404 Client Error''\<rparr>]
   \<and> finish_run sample_args_toggle sample_world_104 [row_104] True
         (map to_df_row (results sample_args_toggle sample_world_104 [row_104]))
       = [ToExcel ''./out/OCC_memos_20250601_083000.xlsx'' [],
          ToCsv ''./out/OCC_memos_20250601_083000.csv'' [],
          ToCsv ''./out/latest.csv'' [], PrintSummary [],
          WriteState ''./occ_last_number.txt'' ''104'']"
proof -
  have p: "picked sample_args sample_world (listing sample_world) = Inr [row_103, row_102, row_101]"
    by (simp add: sample_listing sample_picked)
  have o: "out sample_args = ''./out''"
    by code_simp
  have f: "fetch_pdf_text sample_world (url row_102) = Inl ''404 Client Error''"
    "fetch_pdf_text sample_world_104 (url row_104) = Inl ''404 Client Error''"
    by code_simp+
  have d: "to_df_row (row_102\<lparr>details := Some ''parse_error: 404 Client Error''\<rparr>) = to_df_row row_102"
    by (simp add: to_df_row_def)
  have q: "picked sample_args_toggle sample_world_104 (listing sample_world_104) = Inr [row_104]"
    by (simp add: sample_listing_104 sample_picked_104)
  have r: "results sample_args_toggle sample_world_104 [row_104]
             = [row_104\<lparr>details := Some ''parse_error: 404 Client Error''\<rparr>]"
    by (simp add: results_def enrich_error [OF f(2)])
  have e: "finish_run sample_args_toggle sample_world_104 [row_104] True
             (map to_df_row [row_104\<lparr>details := Some ''parse_error: 404 Client Error''\<rparr>])
           = [ToExcel ''./out/OCC_memos_20250601_083000.xlsx'' [],
              ToCsv ''./out/OCC_memos_20250601_083000.csv'' [],
              ToCsv ''./out/latest.csv'' [], PrintSummary [],
              WriteState ''./occ_last_number.txt'' ''104'']"
    by code_simp
  from main_raises_after_selection [OF p] p o f d q r e show ?thesis
    by simp
qed

text \<open>
  C8, amended. A selected candidate whose document fetch raises is kept in the result list
  built at lines 258-277: its row has number, title and document reference unchanged and
  the note \<open>parse_error: ...\<close> in its details, and no keyword test applies to it. The
  table of lines 279-289 has a row for it with that number, title and reference. In the
  end-of-run step every written table has that row when the past-effective filter is off,
  and when it is on exactly if the row passes the filter, that is, unless the effective-date
  hint of the listing parses to a date before today.
\<close>

theorem fetch_error_row_in_results_and_tables:
  assumes "r \<in> set pk" and "fetch_pdf_text w (url r) = Inl e"
  shows "r\<lparr>details := Some (''parse_error: '' @ e)\<rparr> \<in> set (results a w pk)
         \<and> to_df_row r \<in> set (map to_df_row (results a w pk))
         \<and> col_memo_number (to_df_row r) = memo_number r
         \<and> col_title (to_df_row r) = title r \<and> col_url (to_df_row r) = url r
         \<and> (\<forall>fx \<in> set (finish_run a w lst flag (map to_df_row (results a w pk))).
               (\<exists>p c. fx = WriteState p c)
               \<or> (to_df_row r \<in> set (table_of fx) \<longleftrightarrow> (flag \<longrightarrow> keep_effective w (to_df_row r))))"
proof -
  let ?r' = "r\<lparr>details := Some (''parse_error: '' @ e)\<rparr>"
  have "?r' \<in> set (enrich a w r)"
    using assms(2) by (simp add: enrich_error)
  with assms(1) have 1: "?r' \<in> set (results a w pk)"
    by (auto simp: results_def)
  have "to_df_row ?r' = to_df_row r"
    by (simp add: to_df_row_def)
  moreover from 1 have "to_df_row ?r' \<in> to_df_row ` set (results a w pk)"
    by (rule imageI)
  ultimately have 2: "to_df_row r \<in> set (map to_df_row (results a w pk))"
    by simp
  from 1 2 finish_run_row [OF 2] show ?thesis
    by (simp add: to_df_row_def)
qed

theorem fetch_error_row_in_results_and_tables_witness:
  "fetch_pdf_text sample_world (url row_102) = Inl ''404 Client Error''
   \<and> row_102\<lparr>details := Some ''parse_error: 404 Client Error''\<rparr>
       \<in> set (results sample_args sample_world [row_103, row_102, row_101])
   \<and> keep_effective sample_world (to_df_row row_102)
   \<and> ToCsv ''./out/latest.csv'' [to_df_row row_102]
       \<in> set (finish_run sample_args sample_world [row_103, row_102, row_101] True
                (map to_df_row (results sample_args sample_world [row_103, row_102, row_101])))
   \<and> to_df_row row_102 \<in> set (table_of (ToCsv ''./out/latest.csv'' [to_df_row row_102]))"
proof -
  have f: "fetch_pdf_text sample_world (url row_102) = Inl ''404 Client Error''"
    by code_simp
  have m: "row_102 \<in> set [row_103, row_102, row_101]"
    by simp
  have k: "keep_effective sample_world (to_df_row row_102)"
    by code_simp
  have x: "ToCsv ''./out/latest.csv'' [to_df_row row_102]
       \<in> set (finish_run sample_args sample_world [row_103, row_102, row_101] True
                (map to_df_row (results sample_args sample_world [row_103, row_102, row_101])))"
    unfolding sample_results by code_simp
  from fetch_error_row_in_results_and_tables
         [OF m f, of sample_args "[row_103, row_102, row_101]" True]
  have "row_102\<lparr>details := Some ''parse_error: 404 Client Error''\<rparr>
          \<in> set (results sample_args sample_world [row_103, row_102, row_101])"
    and "\<forall>fx \<in> set (finish_run sample_args sample_world [row_103, row_102, row_101] True
                (map to_df_row (results sample_args sample_world [row_103, row_102, row_101]))).
           (\<exists>p c. fx = WriteState p c)
           \<or> (to_df_row row_102 \<in> set (table_of fx)
                \<longleftrightarrow> (True \<longrightarrow> keep_effective sample_world (to_df_row row_102)))"
    by simp_all
  with f k x show ?thesis
    by auto
qed

section \<open>The include-keyword filter\<close>

lemma lower_char_space: "is_space (lower_char c) \<longleftrightarrow> is_space c"
  by (simp add: lower_char_def is_space_def upper_letters_def lower_letters_def)

lemma lower_char_blank: "lower_char (CHR '' '') = CHR '' ''"
  by (simp add: lower_char_def upper_letters_def lower_letters_def)

lemma split_ws_word:
  "\<forall>c \<in> set k. \<not> is_space c \<Longrightarrow> split_ws acc (k @ rest) = split_ws (rev k @ acc) rest"
  by (induction k arbitrary: acc) simp_all

lemma split_join_sp:
  "\<forall>k \<in> set ks. k \<noteq> [] \<and> (\<forall>c \<in> set k. \<not> is_space c) \<Longrightarrow> split (join_sp ks) = ks"
proof (induction ks rule: join_sp.induct)
  case 1
  then show ?case by (simp add: split_def)
next
  case (2 x)
  then have "split_ws [] (x @ []) = split_ws (rev x @ []) []"
    by (intro split_ws_word) simp
  with 2 show ?case by (simp add: split_def)
next
  case (3 x y ys)
  then have "split_ws [] (x @ '' '' @ join_sp (y # ys)) = split_ws (rev x @ []) ('' '' @ join_sp (y # ys))"
    by (intro split_ws_word) simp
  moreover have "is_space (CHR '' '')" by (simp add: is_space_def)
  moreover have "split (join_sp (y # ys)) = y # ys" using 3 by simp
  ultimately show ?case using 3 by (simp add: split_def)
qed

lemma lower_join_sp: "lower (join_sp ks) = join_sp (map lower ks)"
  by (induction ks rule: join_sp.induct) (simp_all add: lower_def lower_char_blank)

lemma include_tokens:
  assumes "\<forall>k \<in> set (include_kws a). k \<noteq> [] \<and> (\<forall>c \<in> set k. \<not> is_space c)"
  shows "split (include_text a) = map lower (include_kws a)"
proof -
  have "\<forall>k \<in> set (map lower (include_kws a)). k \<noteq> [] \<and> (\<forall>c \<in> set k. \<not> is_space c)"
    using assms by (auto simp: lower_def lower_char_space)
  from split_join_sp [OF this] show ?thesis
    by (simp add: include_text_def lower_join_sp)
qed

text \<open>
  C7, as stated, fails: with the default keywords, the row of memo 102, whose fetch raises,
  is in the result set although its title and subject contain none of the keywords.
\<close>

theorem include_filter_counterexample:
  "include_kws sample_args = [''reverse'', ''split'', ''name'', ''symbol'', ''merger'']
   \<and> picked sample_args sample_world (listing sample_world) = Inr [row_103, row_102, row_101]
   \<and> row_102\<lparr>details := Some ''parse_error: 404 Client Error''\<rparr>
       \<in> set (results sample_args sample_world [row_103, row_102, row_101])
   \<and> hay (row_102\<lparr>details := Some ''parse_error: 404 Client Error''\<rparr>) = ''foo corp ''
   \<and> \<not> py_in ''reverse'' ''foo corp '' \<and> \<not> py_in ''split'' ''foo corp ''
   \<and> \<not> py_in ''name'' ''foo corp '' \<and> \<not> py_in ''symbol'' ''foo corp ''
   \<and> \<not> py_in ''merger'' ''foo corp ''"
proof -
  have "include_kws sample_args = [''reverse'', ''split'', ''name'', ''symbol'', ''merger'']"
    by code_simp
  moreover have "hay (row_102\<lparr>details := Some ''parse_error: 404 Client Error''\<rparr>) = ''foo corp ''"
    by code_simp
  moreover have "\<not> py_in ''reverse'' ''foo corp ''" "\<not> py_in ''split'' ''foo corp ''"
    "\<not> py_in ''name'' ''foo corp ''" "\<not> py_in ''symbol'' ''foo corp ''"
    "\<not> py_in ''merger'' ''foo corp ''"
    by code_simp+
  ultimately show ?thesis
    by (simp add: sample_listing sample_picked sample_results)
qed

text \<open>
  C7, amended. When the joined keyword text is not empty, every record of the result set
  either contains, in the case-folded title and subject, one of the whitespace-separated
  words of the case-folded keyword text, or is the row of a candidate whose fetch raised,
  kept unfiltered with its error note. When every configured keyword is a non-empty word
  without whitespace, those words are the case-folded configured keywords.
\<close>

theorem include_filter_on_parsed_rows:
  "(include_text a \<noteq> [] \<and> r' \<in> set (results a w pk) \<longrightarrow>
      (\<exists>kw \<in> set (split (include_text a)). py_in kw (hay r'))
      \<or> (\<exists>r \<in> set pk. \<exists>e. fetch_pdf_text w (url r) = Inl e
            \<and> r' = r\<lparr>details := Some (''parse_error: '' @ e)\<rparr>))
   \<and> ((\<forall>k \<in> set (include_kws a). k \<noteq> [] \<and> (\<forall>c \<in> set k. \<not> is_space c)) \<longrightarrow>
        split (include_text a) = map lower (include_kws a))"
proof -
  have "(\<exists>kw \<in> set (split (include_text a)). py_in kw (hay r'))
        \<or> (\<exists>r \<in> set pk. \<exists>e. fetch_pdf_text w (url r) = Inl e
              \<and> r' = r\<lparr>details := Some (''parse_error: '' @ e)\<rparr>)"
    if ne: "include_text a \<noteq> []" and m: "r' \<in> set (results a w pk)"
  proof -
    from results_origin [OF m] obtain r where r: "r \<in> set pk" "r' \<in> set (enrich a w r)"
      by blast
    from enrich_cases [OF r(2)] ne r(1) show ?thesis by blast
  qed
  with include_tokens [of a] show ?thesis by blast
qed

theorem include_filter_on_parsed_rows_witness:
  "include_text sample_args = ''reverse split name symbol merger''
   \<and> split (include_text sample_args) = map lower (include_kws sample_args)
   \<and> results sample_args sample_world [row_103, row_102, row_101] =
       [row_103\<lparr>effective_date := Some ''2025-05-01'', event_type := Some ''reverse split''\<rparr>,
        row_102\<lparr>details := Some ''parse_error: 404 Client Error''\<rparr>]
   \<and> py_in ''reverse''
        (hay (row_103\<lparr>effective_date := Some ''2025-05-01'', event_type := Some ''reverse split''\<rparr>))
   \<and> fetch_pdf_text sample_world (url row_102) = Inl ''404 Client Error''
   \<and> ((\<exists>kw \<in> set (split (include_text sample_args)).
          py_in kw (hay (row_102\<lparr>details := Some ''parse_error: 404 Client Error''\<rparr>)))
       \<or> (\<exists>r \<in> set [row_103, row_102, row_101]. \<exists>e. fetch_pdf_text sample_world (url r) = Inl e
             \<and> row_102\<lparr>details := Some ''parse_error: 404 Client Error''\<rparr>
                 = r\<lparr>details := Some (''parse_error: '' @ e)\<rparr>))"
proof -
  have t: "include_text sample_args = ''reverse split name symbol merger''"
    by code_simp
  have k: "\<forall>k \<in> set (include_kws sample_args). k \<noteq> [] \<and> (\<forall>c \<in> set k. \<not> is_space c)"
    by code_simp
  have h: "py_in ''reverse''
        (hay (row_103\<lparr>effective_date := Some ''2025-05-01'', event_type := Some ''reverse split''\<rparr>))"
    by code_simp
  have f: "fetch_pdf_text sample_world (url row_102) = Inl ''404 Client Error''"
    by code_simp
  have ne: "include_text sample_args \<noteq> []"
    by (simp add: t)
  have m: "row_102\<lparr>details := Some ''parse_error: 404 Client Error''\<rparr>
             \<in> set (results sample_args sample_world [row_103, row_102, row_101])"
    by (simp add: sample_results)
  from include_filter_on_parsed_rows
         [of sample_args "row_102\<lparr>details := Some ''parse_error: 404 Client Error''\<rparr>"
            sample_world "[row_103, row_102, row_101]"]
  have "(\<exists>kw \<in> set (split (include_text sample_args)).
          py_in kw (hay (row_102\<lparr>details := Some ''parse_error: 404 Client Error''\<rparr>)))
       \<or> (\<exists>r \<in> set [row_103, row_102, row_101]. \<exists>e. fetch_pdf_text sample_world (url r) = Inl e
             \<and> row_102\<lparr>details := Some ''parse_error: 404 Client Error''\<rparr>
                 = r\<lparr>details := Some (''parse_error: '' @ e)\<rparr>)"
    and "split (include_text sample_args) = map lower (include_kws sample_args)"
    using ne m k by blast+
  with t h f sample_results show ?thesis
    by simp
qed

section \<open>The end of the run\<close>

text \<open>
  C9, as stated, fails: the run that picks nothing has already created the output
  directory (line 223) when it returns.
\<close>

theorem early_return_counterexample:
  "picked sample_args sample_world_seen (listing sample_world_seen) = Inr []
   \<and> snd (main sample_args sample_world_seen) = Returned
   \<and> MakeDirs ''./out'' \<in> set (fst (main sample_args sample_world_seen))"
proof -
  have p: "picked sample_args sample_world_seen (listing sample_world_seen) = Inr []"
    by (simp add: sample_listing_seen sample_picked_seen)
  have "out sample_args = ''./out''" by code_simp
  with p main_early_return [OF p] show ?thesis by simp
qed

text \<open>
  C9, amended. A run whose selection stage picks no candidates returns early. All it has
  done to the outside is to create the output directory and to print one line: it writes no
  spreadsheet and no CSV file, leaves the state file alone and sends no notification.
\<close>

theorem early_return_effects:
  assumes "picked a w (listing w) = Inr []"
  shows "main a w = ([MakeDirs (out a), PrintLine ''No new memos found on search page.''], Returned)
         \<and> ToExcel p df \<notin> set (fst (main a w)) \<and> ToCsv p df \<notin> set (fst (main a w))
         \<and> WriteState p c \<notin> set (fst (main a w)) \<and> PrintSummary df \<notin> set (fst (main a w))
         \<and> Webhook hook df \<notin> set (fst (main a w))
         \<and> SlackPost token channel df files \<notin> set (fst (main a w))"
  by (simp add: main_early_return [OF assms])

theorem early_return_effects_witness:
  "picked sample_args sample_world_seen (listing sample_world_seen) = Inr []
   \<and> main sample_args sample_world_seen
       = ([MakeDirs ''./out'', PrintLine ''No new memos found on search page.''], Returned)
   \<and> WriteState ''./occ_last_number.txt'' ''103'' \<notin> set (fst (main sample_args sample_world_seen))"
proof -
  have p: "picked sample_args sample_world_seen (listing sample_world_seen) = Inr []"
    by (simp add: sample_listing_seen sample_picked_seen)
  have "out sample_args = ''./out''" by code_simp
  with p early_return_effects [OF p, of "''./occ_last_number.txt''" "[]" "''103''"]
  show ?thesis by simp
qed





lemma sample_keep_effective:
  "\<not> keep_effective sample_world
       (to_df_row (row_103\<lparr>effective_date := Some ''2025-05-01'', event_type := Some ''reverse split''\<rparr>))
   \<and> keep_effective sample_world
       (to_df_row (row_102\<lparr>details := Some ''parse_error: 404 Client Error''\<rparr>))"
  by code_simp

text \<open>
  C5. With today 2025-06-01 and the documents of the sample, the run picks three memos and
  assembles a record with effective date 2025-05-01 and a record with none; then, with the
  past-effective toggle set or unset alike, it raises \<open>AttributeError\<close> at line 291,
  having only created the output directory: no record is kept or dropped on effective-date
  grounds, and nothing is written.
\<close>

theorem past_effective_toggle_raises:
  "today sample_world = 739403
   \<and> sample_fromisoformat ''2025-05-01'' = Some 739372
   \<and> picked sample_args_toggle sample_world (listing sample_world) = Inr [row_103, row_102, row_101]
   \<and> map effective_date (results sample_args_toggle sample_world [row_103, row_102, row_101])
       = [Some ''2025-05-01'', None]
   \<and> main sample_args_toggle sample_world = ([MakeDirs ''./out''], Raised AttributeError)
   \<and> main sample_args sample_world = ([MakeDirs ''./out''], Raised AttributeError)"
proof -
  have p: "picked sample_args sample_world (listing sample_world) = Inr [row_103, row_102, row_101]"
    by (simp add: sample_listing sample_picked)
  then have q: "picked sample_args_toggle sample_world (listing sample_world)
                  = Inr [row_103, row_102, row_101]"
    by (simp add: sample_args_toggle_def picked_toggle)
  have o: "out sample_args = ''./out''" "out sample_args_toggle = ''./out''"
    "today sample_world = 739403" "sample_fromisoformat ''2025-05-01'' = Some 739372"
    by code_simp+
  have r: "results sample_args_toggle sample_world [row_103, row_102, row_101]
             = results sample_args sample_world [row_103, row_102, row_101]"
    by (simp add: sample_args_toggle_def results_toggle)
  have e: "effective_date row_102 = None"
    by (simp add: row_102_def)
  from main_raises_after_selection [OF p] main_raises_after_selection [OF q]
  show ?thesis
    using q o by (simp add: r sample_results e)
qed

section \<open>Date hints of the listing\<close>

lemma ends_seq_lit1:
  "ends (Seq (lit [x]) r) (p, s) =
     (case s of a # rest \<Rightarrow> if a = x then ends r (Some a, rest) else [] | [] \<Rightarrow> [])"
  by (simp add: lit_def split: list.splits)

lemma seq_Cons: "seq (r # rs) = Seq r (seq rs)"
  by (simp add: seq_def)

lemma seq_Nil: "seq [] = Eps"
  by (simp add: seq_def)

lemma ends_seq_rep2:
  "ends (Seq (Rep k 2 (Some 2)) r) (p, s) =
     (case s of a # b # rest \<Rightarrow> if in_cls k a \<and> in_cls k b then ends r (Some b, rest) else []
      | _ \<Rightarrow> [])"
  by (simp add: eval_nat_numeral split: list.splits)

lemma ends_seq_rep4:
  "ends (Seq (Rep k 4 (Some 4)) r) (p, s) =
     (case s of a # b # c # d # rest \<Rightarrow>
        if in_cls k a \<and> in_cls k b \<and> in_cls k c \<and> in_cls k d then ends r (Some d, rest) else []
      | _ \<Rightarrow> [])"
  by (simp add: eval_nat_numeral split: list.splits)

lemmas date_shape_steps = RE_DATE_SHAPE_def seq_Cons seq_Nil
  ends_seq_lit1 ends_seq_rep2 ends_seq_rep4 ends.simps(4) in_cls.simps

lemma date_shape_iff:
  "re_match RE_DATE_SHAPE t \<longleftrightarrow>
     (\<exists>d1 d2 d3 d4 d5 d6 d7 d8 rest.
        t = d1 # d2 # CHR ''/'' # d3 # d4 # CHR ''/'' # d5 # d6 # d7 # d8 # rest
        \<and> is_digit d1 \<and> is_digit d2 \<and> is_digit d3 \<and> is_digit d4
        \<and> is_digit d5 \<and> is_digit d6 \<and> is_digit d7 \<and> is_digit d8)"
    (is "?L \<longleftrightarrow> ?R")
proof
  assume ?L
  then have "ends RE_DATE_SHAPE (None, t) \<noteq> []"
    by (simp add: re_match_def)
  then show ?R
    by (simp only: date_shape_steps list.simps split: list.splits if_splits) simp
next
  assume ?R
  then obtain d1 d2 d3 d4 d5 d6 d7 d8 rest where
    t: "t = d1 # d2 # CHR ''/'' # d3 # d4 # CHR ''/'' # d5 # d6 # d7 # d8 # rest"
    and d: "is_digit d1" "is_digit d2" "is_digit d3" "is_digit d4"
      "is_digit d5" "is_digit d6" "is_digit d7" "is_digit d8"
    by blast
  show ?L
    unfolding re_match_def t by (simp only: date_shape_steps list.simps d if_True simp_thms)
qed

lemma date_hints_of_dates:
  "date_hints parse sibs =
     (case dates sibs of [] \<Rightarrow> (None, None)
      | [d] \<Rightarrow> (to_iso parse d, None)
      | d # e # _ \<Rightarrow> (to_iso parse d, to_iso parse e))"
  by (simp add: date_hints_def Let_def split: list.splits)

text \<open>
  C10. A fragment counts as a date hint exactly when it begins with two digits, a slash,
  two digits, a slash and four digits; a fragment whose date comes later in the string or
  whose day or month has one digit does not. The hints are taken from the qualifying
  fragments alone, and both are absent when no fragment qualifies.
\<close>

theorem date_hint_needs_leading_padded_date:
  "(re_match RE_DATE_SHAPE t \<longleftrightarrow>
      (\<exists>d1 d2 d3 d4 d5 d6 d7 d8 rest.
         t = d1 # d2 # CHR ''/'' # d3 # d4 # CHR ''/'' # d5 # d6 # d7 # d8 # rest
         \<and> is_digit d1 \<and> is_digit d2 \<and> is_digit d3 \<and> is_digit d4
         \<and> is_digit d5 \<and> is_digit d6 \<and> is_digit d7 \<and> is_digit d8))
   \<and> \<not> re_match RE_DATE_SHAPE ''Posted 03/04/2025''
   \<and> \<not> re_match RE_DATE_SHAPE ''3/4/2025''
   \<and> \<not> re_match RE_DATE_SHAPE ''03/4/2025''
   \<and> dates sibs = filter (re_match RE_DATE_SHAPE) (candidates sibs)
   \<and> date_hints parse sibs =
       (case dates sibs of [] \<Rightarrow> (None, None)
        | [d] \<Rightarrow> (to_iso parse d, None)
        | d # e # _ \<Rightarrow> (to_iso parse d, to_iso parse e))
   \<and> ((\<forall>c \<in> set (candidates sibs). \<not> re_match RE_DATE_SHAPE c) \<longrightarrow>
        date_hints parse sibs = (None, None))"
proof -
  have n: "\<not> re_match RE_DATE_SHAPE ''Posted 03/04/2025''"
    "\<not> re_match RE_DATE_SHAPE ''3/4/2025''" "\<not> re_match RE_DATE_SHAPE ''03/4/2025''"
    by code_simp+
  have e: "date_hints parse sibs = (None, None)"
    if "\<forall>c \<in> set (candidates sibs). \<not> re_match RE_DATE_SHAPE c"
  proof -
    from that have "dates sibs = []" by (simp add: dates_def filter_empty_conv)
    then show ?thesis by (simp add: date_hints_of_dates)
  qed
  from n e date_shape_iff [of t] date_hints_of_dates [of parse sibs] show ?thesis
    by (simp add: dates_def)
qed

theorem date_hint_needs_leading_padded_date_witness:
  "re_match RE_DATE_SHAPE ''03/04/2025''
   \<and> candidates siblings_undated = [''3/4/2025'', ''Posted 03/04/2025'']
   \<and> date_hints sample_parse siblings_undated = (None, None)
   \<and> candidates siblings_dated = [''Memo'', ''03/04/2025'']
   \<and> date_hints sample_parse siblings_dated = (Some ''2025-03-04'', None)"
proof -
  have c: "candidates siblings_undated = [''3/4/2025'', ''Posted 03/04/2025'']"
    "candidates siblings_dated = [''Memo'', ''03/04/2025'']"
    by code_simp+
  have m: "re_match RE_DATE_SHAPE ''03/04/2025''" "\<not> re_match RE_DATE_SHAPE ''Memo''"
    by code_simp+
  have i: "to_iso sample_parse ''03/04/2025'' = Some ''2025-03-04''" by code_simp
  from date_hint_needs_leading_padded_date [of "''03/04/2025''" siblings_undated sample_parse]
    date_hint_needs_leading_padded_date [of "''03/04/2025''" siblings_dated sample_parse]
  show ?thesis
    by (simp add: c m i)
qed

end
